theory Spec2Isabelle
  imports Complex_Main "HOL-Library.Product_Lexorder"
begin

section \<open>Python strings\<close>

text \<open>
  A Python \<^verbatim>\<open>str\<close> is a sequence of Unicode code points, so it is modelled as a list of
  integers (what \<^verbatim>\<open>ord\<close> returns); \<open>ascii\<close> embeds an ASCII literal. The source's non-ASCII literals are
  written out as code points where they occur.

  The Unicode tables behind \<^verbatim>\<open>str.lower\<close>, \<^verbatim>\<open>re.IGNORECASE\<close> and \<^verbatim>\<open>\d\<close> are not part of the
  repository. They are modelled on the ASCII range (code points above it are left alone by
  \<open>str_lower\<close> and are no digits), which is exact on ASCII strings. The white space of
  \<^verbatim>\<open>str.strip\<close> and \<^verbatim>\<open>\s\<close> is the full list of CPython.
\<close>

type_synonym pystr = "int list"

definition ascii :: "string \<Rightarrow> pystr" where
  "ascii s = map of_char s"

definition lower_cp :: "int \<Rightarrow> int" where
  "lower_cp c = (if 65 \<le> c \<and> c \<le> 90 then c + 32 else c)"

definition str_lower :: "pystr \<Rightarrow> pystr" where
  "str_lower s = map lower_cp s"

definition isspace :: "int \<Rightarrow> bool" where
  "isspace c =
     ((9 \<le> c \<and> c \<le> 13) \<or> (28 \<le> c \<and> c \<le> 32) \<or> c = 133 \<or> c = 160 \<or> c = 5760 \<or>
      (8192 \<le> c \<and> c \<le> 8202) \<or> c = 8232 \<or> c = 8233 \<or> c = 8239 \<or> c = 8287 \<or> c = 12288)"

definition isdigit :: "int \<Rightarrow> bool" where
  "isdigit c = (48 \<le> c \<and> c \<le> 57)"

definition str_strip :: "pystr \<Rightarrow> pystr" where
  "str_strip s = rev (dropWhile isspace (rev (dropWhile isspace s)))"

definition startswith :: "pystr \<Rightarrow> pystr \<Rightarrow> bool" where
  "startswith s p = (take (length p) s = p)"

definition endswith :: "pystr \<Rightarrow> pystr \<Rightarrow> bool" where
  "endswith s p = (length p \<le> length s \<and> drop (length s - length p) s = p)"

text \<open>\<^verbatim>\<open>sub in s\<close>: \<open>sub\<close> occurs in \<open>s\<close> as a contiguous piece.\<close>

fun contains :: "pystr \<Rightarrow> pystr \<Rightarrow> bool" where
  "contains [] sub = (sub = [])"
| "contains (x # xs) sub = (startswith (x # xs) sub \<or> contains xs sub)"

text \<open>
  \<^verbatim>\<open>s.split(sep, 1)\<close> for a non-empty separator: \<open>None\<close> when the separator does not occur
  (Python returns the one-element list), otherwise the text before and after its first
  occurrence.
\<close>

fun split_once :: "pystr \<Rightarrow> pystr \<Rightarrow> (pystr \<times> pystr) option" where
  "split_once sep [] = None"
| "split_once sep (x # xs) =
     (if startswith (x # xs) sep then Some ([], drop (length sep) (x # xs))
      else map_option (\<lambda>(a, b). (x # a, b)) (split_once sep xs))"

text \<open>\<^verbatim>\<open>s.split(sep)[0]\<close>: the text before the first separator, or all of it.\<close>

definition split_first :: "pystr \<Rightarrow> pystr \<Rightarrow> pystr" where
  "split_first sep s = (case split_once sep s of None \<Rightarrow> s | Some (a, b) \<Rightarrow> a)"

text \<open>
  Decimal digits of a non-negative integer, as \<^verbatim>\<open>str(n)\<close> prints them; \<open>str_of_nat\<close> prints a
  length.
\<close>

function digits_acc :: "int \<Rightarrow> pystr \<Rightarrow> pystr" where
  "digits_acc n acc =
     (if n < 10 then (48 + n) # acc else digits_acc (n div 10) ((48 + n mod 10) # acc))"
  by pat_completeness auto
termination
  by (relation "measure (\<lambda>(n, acc). nat n)") auto

declare digits_acc.simps [simp del]

definition str_of_int :: "int \<Rightarrow> pystr" where
  "str_of_int n = digits_acc n []"

definition str_of_nat :: "nat \<Rightarrow> pystr" where
  "str_of_nat n = str_of_int (int n)"

section \<open>os.path (the POSIX flavour)\<close>

text \<open>
  \<^verbatim>\<open>str.rfind\<close> of one character: the last index holding it, or \<open>-1\<close>.
\<close>

definition rfind :: "pystr \<Rightarrow> int \<Rightarrow> int" where
  "rfind s c =
     (case filter (\<lambda>i. s ! i = c) (rev [0..<length s]) of
        [] \<Rightarrow> - 1
      | i # _ \<Rightarrow> int i)"

definition slash :: int where
  "slash = 47"

definition extsep :: int where
  "extsep = 46"

text \<open>
  \<^verbatim>\<open>os.path.splitext\<close>: the extension starts at the last dot after the last separator,
  unless only dots stand between the separator and that dot (a leading-dot name has no
  extension).
\<close>

definition splitext :: "pystr \<Rightarrow> pystr \<times> pystr" where
  "splitext p =
     (let sepIndex = rfind p slash; dotIndex = rfind p extsep
      in if dotIndex > sepIndex \<and>
            list_ex (\<lambda>i. p ! i \<noteq> extsep) [nat (sepIndex + 1)..<nat dotIndex]
         then (take (nat dotIndex) p, drop (nat dotIndex) p)
         else (p, []))"

definition basename :: "pystr \<Rightarrow> pystr" where
  "basename p = drop (nat (rfind p slash + 1)) p"

definition dirname :: "pystr \<Rightarrow> pystr" where
  "dirname p =
     (let head = take (nat (rfind p slash + 1)) p
      in if head \<noteq> [] \<and> head \<noteq> replicate (length head) slash
         then rev (dropWhile (\<lambda>c. c = slash) (rev head))
         else head)"

text \<open>\<^verbatim>\<open>os.path.join(a, b)\<close> with one component.\<close>

definition join :: "pystr \<Rightarrow> pystr \<Rightarrow> pystr" where
  "join a b =
     (if startswith b [slash] then b
      else if a = [] \<or> endswith a [slash] then a @ b
      else a @ [slash] @ b)"

section \<open>The regular expressions of the source\<close>

text \<open>
  Every pattern of the source is a sequence of atoms: one character of a class, a greedy
  run \<^verbatim>\<open>+\<close> of a class, or \<^verbatim>\<open>$\<close>. \<open>rmatch\<close> is the backtracking matcher of \<^verbatim>\<open>re\<close> on such a
  sequence, anchored at the start of its argument: it returns how many characters the first
  successful alternative consumes, a greedy run trying its longest extent first. \<^verbatim>\<open>$\<close>
  holds at the end of the text and before a final newline.
\<close>

datatype atom = One "int \<Rightarrow> bool" | Many "int \<Rightarrow> bool" | Dollar

fun first_some :: "'a option list \<Rightarrow> 'a option" where
  "first_some [] = None"
| "first_some (None # xs) = first_some xs"
| "first_some (Some y # xs) = Some y"

fun rmatch :: "atom list \<Rightarrow> pystr \<Rightarrow> nat option" where
  "rmatch [] s = Some 0"
| "rmatch (Dollar # r) s = (if s = [] \<or> s = [10] then rmatch r s else None)"
| "rmatch (One c # r) [] = None"
| "rmatch (One c # r) (x # xs) = (if c x then map_option Suc (rmatch r xs) else None)"
| "rmatch (Many c # r) s =
     first_some
       (map (\<lambda>k. map_option (\<lambda>m. k + m) (rmatch r (drop k s)))
            (rev [1..<Suc (length (takeWhile c s))]))"

text \<open>
  \<^verbatim>\<open>re.sub(pattern, repl, s)\<close>: scan from the left, replace each match and go on behind it.
  The counter holds how many characters of the current match are still to be skipped. No
  pattern of the source matches the empty string, so an empty match is not replaced here.
\<close>

fun re_sub_from :: "atom list \<Rightarrow> pystr \<Rightarrow> nat \<Rightarrow> pystr \<Rightarrow> pystr" where
  "re_sub_from p repl skip [] = []"
| "re_sub_from p repl (Suc n) (x # xs) = re_sub_from p repl n xs"
| "re_sub_from p repl 0 (x # xs) =
     (case rmatch p (x # xs) of
        Some (Suc k) \<Rightarrow> repl @ re_sub_from p repl k xs
      | _ \<Rightarrow> x # re_sub_from p repl 0 xs)"

definition re_sub :: "atom list \<Rightarrow> pystr \<Rightarrow> pystr \<Rightarrow> pystr" where
  "re_sub p repl s = re_sub_from p repl 0 s"

text \<open>Pattern builders: a literal, a literal under \<^verbatim>\<open>re.IGNORECASE\<close>, and \<^verbatim>\<open>.\<close>.\<close>

definition lit :: "pystr \<Rightarrow> atom list" where
  "lit s = map (\<lambda>c. One (\<lambda>x. x = c)) s"

definition lit_ci :: "pystr \<Rightarrow> atom list" where
  "lit_ci s = map (\<lambda>c. One (\<lambda>x. lower_cp x = lower_cp c)) s"

definition dot :: "int \<Rightarrow> bool" where
  "dot x = (x \<noteq> 10)"

section \<open>Dictionaries in insertion order\<close>

text \<open>
  A Python \<^verbatim>\<open>dict\<close> iterates in the order of first insertion, and the groups are read back
  in that order, so a dictionary is an association list with distinct keys.
  \<open>dict_append\<close> is \<^verbatim>\<open>d[k].append(v)\<close> on a \<^verbatim>\<open>defaultdict(list)\<close>; \<open>dict_set\<close> is \<^verbatim>\<open>d[k] = v\<close>,
  which overwrites the value of a key already present and keeps the key's place.
\<close>

fun dict_append :: "'k \<Rightarrow> 'v \<Rightarrow> ('k \<times> 'v list) list \<Rightarrow> ('k \<times> 'v list) list" where
  "dict_append k v [] = [(k, [v])]"
| "dict_append k v ((k', vs) # d) =
     (if k' = k then (k', vs @ [v]) # d else (k', vs) # dict_append k v d)"

fun dict_set :: "'k \<Rightarrow> 'v \<Rightarrow> ('k \<times> 'v) list \<Rightarrow> ('k \<times> 'v) list" where
  "dict_set k v [] = [(k, v)]"
| "dict_set k v ((k', v') # d) =
     (if k' = k then (k', v) # d else (k', v') # dict_set k v d)"

section \<open>The world outside the program\<close>

text \<open>
  A scan is modelled against one snapshot of the operating system: \<open>stat\<close> is \<^verbatim>\<open>os.stat\<close>
  (\<open>None\<close> where it raises; \<^verbatim>\<open>os.path.exists\<close>, \<^verbatim>\<open>getsize\<close> and \<^verbatim>\<open>getmtime\<close> read it),
  \<open>scandir_tree\<close> is what \<^verbatim>\<open>os.walk\<close> can list below a directory, \<open>clock\<close> is \<^verbatim>\<open>time.time()\<close>,
  \<open>strftime_local\<close> prints a time stamp in the local time zone, \<open>read_attempt p k\<close> is the
  outcome of the \<open>k\<close>-th attempt to open and read \<open>p\<close> in full, \<open>index_path\<close> is
  \<^verbatim>\<open>FileIndex.get_index_path\<close> (the MD5 of the root under the index directory) and
  \<open>can_write\<close> says whether writing an index file succeeds. Time stamps are Python floats;
  they are modelled as rationals.
\<close>

record stat_result =
  st_size :: int
  st_mtime :: rat

datatype dtree = Unreadable | Listing "pystr list" "(pystr \<times> dtree) list"

datatype read_result = Digest pystr | IOError | OtherError

record os_env =
  stat :: "pystr \<Rightarrow> stat_result option"
  scandir_tree :: "pystr \<Rightarrow> dtree"
  clock :: rat
  strftime_local :: "rat \<Rightarrow> pystr"
  read_attempt :: "pystr \<Rightarrow> nat \<Rightarrow> read_result"
  index_path :: "pystr \<Rightarrow> pystr"
  can_write :: bool

section \<open>core/file\_info.py\<close>

text \<open>
  The fields of \<^verbatim>\<open>FileInfo\<close>: \<open>size_text\<close> is the field \<^verbatim>\<open>size\<close> (the printed size),
  \<open>md5_memo\<close> is \<^verbatim>\<open>_md5\<close> and \<open>size_bytes\<close> is \<^verbatim>\<open>_size_bytes\<close>. The metadata fields are
  read by nothing in the core.
\<close>

record file_info =
  path :: pystr
  size_text :: pystr
  mtime :: pystr
  exists :: bool
  md5_memo :: "pystr option"
  size_bytes :: int

text \<open>
  \<^verbatim>\<open>f"{st_size / (1024*1024):.2f} MB"\<close> for a size (a non-negative integer): the quotient
  is exact in a float below \<open>2^53\<close> bytes, and the format rounds the exact value to
  hundredths, ties to even.
\<close>

definition hundredths_mb :: "int \<Rightarrow> int" where
  "hundredths_mb n =
     (let q = (n * 100) div 1048576; r = (n * 100) mod 1048576
      in if 2 * r > 1048576 then q + 1
         else if 2 * r < 1048576 then q
         else if even q then q else q + 1)"

definition format_size :: "int \<Rightarrow> pystr" where
  "format_size n =
     (let h = hundredths_mb n
      in str_of_int (h div 100) @ [46] @ str_of_int (h mod 100 div 10) @ str_of_int (h mod 10)
         @ ascii '' MB'')"

definition from_path :: "os_env \<Rightarrow> pystr \<Rightarrow> file_info" where
  "from_path env p =
     (case stat env p of
        Some stats \<Rightarrow>
          \<lparr>path = p, size_text = format_size (st_size stats),
           mtime = strftime_local env (st_mtime stats), exists = True, md5_memo = None,
           size_bytes = st_size stats\<rparr>
      | None \<Rightarrow>
          \<lparr>path = p, size_text = ascii ''N/A'', mtime = ascii ''N/A'', exists = False,
           md5_memo = None, size_bytes = 0\<rparr>)"

text \<open>
  \<^verbatim>\<open>_calculate_md5\<close>: the retry loop. \<open>opens\<close> counts the attempts to open the file, so
  the second component of the result is the number of attempts made. An \<^verbatim>\<open>IOError\<close>
  is retried until \<open>max_retries\<close> failures, any other exception gives up at once, and both
  end in the empty string. The loop falls through (Python's \<^verbatim>\<open>None\<close>) only when
  \<open>max_retries\<close> is 0.
\<close>

function calculate_md5_loop ::
  "(nat \<Rightarrow> read_result) \<Rightarrow> nat \<Rightarrow> nat \<Rightarrow> nat \<Rightarrow> pystr option \<times> nat" where
  "calculate_md5_loop rd max_retries retries opens =
     (if retries < max_retries then
        (case rd opens of
           Digest d \<Rightarrow> (Some d, Suc opens)
         | IOError \<Rightarrow>
             (if retries + 1 \<ge> max_retries then (Some [], Suc opens)
              else calculate_md5_loop rd max_retries (retries + 1) (Suc opens))
         | OtherError \<Rightarrow> (Some [], Suc opens))
      else (None, opens))"
  by pat_completeness auto
termination
  by (relation "measure (\<lambda>(rd, max_retries, retries, opens). max_retries - retries)") auto

declare calculate_md5_loop.simps [simp del]

definition calculate_md5 :: "os_env \<Rightarrow> pystr \<Rightarrow> pystr option \<times> nat" where
  "calculate_md5 env p = calculate_md5_loop (read_attempt env p) 3 0 0"

text \<open>
  The property \<^verbatim>\<open>md5\<close> computes the hash on first access and keeps it in the object:
  \<open>md5_access\<close> returns the object after the access, whose \<open>md5_memo\<close> is the value read.
  \<open>truthy\<close> is the test \<^verbatim>\<open>if md5:\<close>, false for \<^verbatim>\<open>None\<close> and for the empty string.
\<close>

definition md5_access :: "os_env \<Rightarrow> file_info \<Rightarrow> file_info" where
  "md5_access env fi =
     (if md5_memo fi = None \<and> exists fi
      then fi\<lparr>md5_memo := fst (calculate_md5 env (path fi))\<rparr>
      else fi)"

fun truthy :: "pystr option \<Rightarrow> bool" where
  "truthy None = False"
| "truthy (Some s) = (s \<noteq> [])"

section \<open>core/music\_finder.py: file names\<close>

text \<open>
  \<^verbatim>\<open>normalize_artist_name\<close>: runs of \<^verbatim>\<open>[%\.\s\-_]\<close> become one space, then each pattern of
  \<^verbatim>\<open>remove_patterns\<close> is deleted (under \<^verbatim>\<open>re.IGNORECASE\<close>), in the order of the source:
  three code points and \<^verbatim>\<open>$\<close>, \<^verbatim>\<open>G\.E\.M$\<close>, two code points and \<^verbatim>\<open>$\<close>, \<^verbatim>\<open>A-Mei$\<close>,
  \<^verbatim>\<open>feat\..+$\<close>, \<^verbatim>\<open>ft\..+$\<close>, a parenthesis (ASCII or full width) to a closing one at the
  end, two code points and \<^verbatim>\<open>.+$\<close>, \<^verbatim>\<open>cover.+$\<close>.
\<close>

definition separator_class :: "int \<Rightarrow> bool" where
  "separator_class c = (c = 37 \<or> c = 46 \<or> isspace c \<or> c = 45 \<or> c = 95)"

definition remove_patterns :: "atom list list" where
  "remove_patterns =
     [lit_ci [37011, 32043, 26827] @ [Dollar],
      lit_ci (ascii ''G.E.M'') @ [Dollar],
      lit_ci [38463, 22969] @ [Dollar],
      lit_ci (ascii ''A-Mei'') @ [Dollar],
      lit_ci (ascii ''feat.'') @ [Many dot, Dollar],
      lit_ci (ascii ''ft.'') @ [Many dot, Dollar],
      [One (\<lambda>c. c = 40 \<or> c = 65288), Many dot, One (\<lambda>c. c = 41 \<or> c = 65289), Dollar],
      lit_ci [32763, 33258] @ [Many dot, Dollar],
      lit_ci (ascii ''cover'') @ [Many dot, Dollar]]"

definition normalize_artist_name :: "pystr \<Rightarrow> pystr" where
  "normalize_artist_name artist =
     str_lower (str_strip
       (fold (\<lambda>pattern a. re_sub pattern [] a) remove_patterns
          (re_sub [Many separator_class] [32] artist)))"

text \<open>
  \<^verbatim>\<open>parse_music_filename\<close>: the title patterns are \<^verbatim>\<open>\(Live\)$\<close>, \<^verbatim>\<open>\(Remix\)$\<close>, \<^verbatim>\<open>\(Cover\)$\<close>,
  \<^verbatim>\<open>\(DJ\<close> with one code point, three parenthesised words in code points, and \<^verbatim>\<open>\(Demo\)$\<close>.
  The title is stripped and keeps its case; only the artist is lowered.
\<close>

definition title_patterns :: "atom list list" where
  "title_patterns =
     map (\<lambda>s. lit_ci s @ [Dollar])
       [ascii ''(Live)'', ascii ''(Remix)'', ascii ''(Cover)'',
        ascii ''(DJ'' @ [29256, 41],
        [40, 32431, 38899, 20048, 41], [40, 20276, 22863, 41],
        [40, 29255, 27573, 41], ascii ''(Demo)'']"

definition timestamp_suffix :: "atom list" where
  "timestamp_suffix = One (\<lambda>c. c = 95) # replicate 14 (One isdigit) @ [Dollar]"

definition parse_music_filename :: "pystr \<Rightarrow> pystr \<times> pystr" where
  "parse_music_filename filename =
     (let name = re_sub timestamp_suffix [] (str_strip (fst (splitext filename)))
      in case split_once (ascii '' - '') name of
           Some (title, artist) \<Rightarrow>
             (str_strip (fold (\<lambda>pattern t. re_sub pattern [] t) title_patterns title),
              normalize_artist_name artist)
         | None \<Rightarrow> (name, []))"

section \<open>core/music\_finder.py: the four ways of grouping\<close>

datatype DuplicateCheckMethod = FILENAME | SIZE | MD5 | MIXED

type_synonym groups = "(pystr \<times> file_info list) list"

text \<open>
  Each method fills a \<^verbatim>\<open>defaultdict(list)\<close> in one pass over the files and then stores every
  class of more than one file under its label. The labels carry non-ASCII words: two code
  points before \<^verbatim>\<open>": "\<close> for the size and the song, three before the closing parenthesis of a
  song.
\<close>

definition size_label :: "file_info \<Rightarrow> pystr" where
  "size_label fi = [22823, 23567, 58, 32] @ size_text fi"

definition md5_label :: "pystr \<Rightarrow> pystr" where
  "md5_label md5 = ascii ''MD5: '' @ take 8 md5 @ ascii ''...''"

definition mixed_label :: "file_info \<Rightarrow> pystr \<Rightarrow> pystr" where
  "mixed_label fi md5 = size_label fi @ ascii '', '' @ md5_label md5"

definition song_label :: "pystr \<Rightarrow> nat \<Rightarrow> pystr" where
  "song_label name_key n =
     [27468, 26354, 58, 32] @ split_first [124] name_key @ ascii '' ('' @ str_of_nat n
       @ [20010, 29256, 26412, 41]"

definition size_groups :: "file_info list \<Rightarrow> (int \<times> file_info list) list" where
  "size_groups all_files = fold (\<lambda>fi d. dict_append (size_bytes fi) fi d) all_files []"

definition group_by_size :: "file_info list \<Rightarrow> groups" where
  "group_by_size all_files =
     fold (\<lambda>(size, files) duplicates.
             case files of
               f0 # f1 # rest \<Rightarrow> dict_set (size_label f0) files duplicates
             | _ \<Rightarrow> duplicates)
          (size_groups all_files) []"

text \<open>
  \<open>md5_groups\<close>: the loop \<^verbatim>\<open>md5 = file_info.md5; if md5: md5_groups[md5].append(file_info)\<close>.
\<close>

definition md5_groups :: "os_env \<Rightarrow> file_info list \<Rightarrow> (pystr \<times> file_info list) list" where
  "md5_groups env files =
     fold (\<lambda>fi d. let fi' = md5_access env fi
                   in if truthy (md5_memo fi') then dict_append (the (md5_memo fi')) fi' d else d)
          files []"

definition group_by_md5 :: "os_env \<Rightarrow> file_info list \<Rightarrow> groups" where
  "group_by_md5 env all_files =
     fold (\<lambda>(md5, files) duplicates.
             if length files > 1 then dict_set (md5_label md5) files duplicates
             else duplicates)
          (md5_groups env all_files) []"

definition group_mixed :: "os_env \<Rightarrow> file_info list \<Rightarrow> groups" where
  "group_mixed env all_files =
     fold (\<lambda>(size, files) duplicates.
             if length files > 1 then
               fold (\<lambda>(md5, md5_files) duplicates.
                       case md5_files of
                         f0 # f1 # rest \<Rightarrow> dict_set (mixed_label f0 md5) md5_files duplicates
                       | _ \<Rightarrow> duplicates)
                    (md5_groups env files) duplicates
             else duplicates)
          (size_groups all_files) []"

definition name_key :: "file_info \<Rightarrow> pystr" where
  "name_key fi =
     (case parse_music_filename (basename (path fi)) of
        (title, artist) \<Rightarrow> if artist \<noteq> [] then title @ [124] @ artist else title)"

definition name_groups :: "file_info list \<Rightarrow> (pystr \<times> file_info list) list" where
  "name_groups all_files = fold (\<lambda>fi d. dict_append (name_key fi) fi d) all_files []"

definition group_by_filename :: "file_info list \<Rightarrow> groups" where
  "group_by_filename all_files =
     fold (\<lambda>(key, files) duplicates.
             if length files > 1 then dict_set (song_label key (length files)) files duplicates
             else duplicates)
          (name_groups all_files) []"

text \<open>
  The grouping part of \<^verbatim>\<open>find_duplicates\<close>. Its \<^verbatim>\<open>except\<close> branch has no counterpart here:
  the hash property catches what reading raises, and nothing else in the branch raises.
\<close>

fun classify :: "os_env \<Rightarrow> DuplicateCheckMethod \<Rightarrow> file_info list \<Rightarrow> groups" where
  "classify env SIZE all_files = group_by_size all_files"
| "classify env MD5 all_files = group_by_md5 env all_files"
| "classify env MIXED all_files = group_mixed env all_files"
| "classify env FILENAME all_files = group_by_filename all_files"

section \<open>core/file\_index.py\<close>

text \<open>
  An index file is a JSON document with the keys \<^verbatim>\<open>root_dir\<close>, \<^verbatim>\<open>timestamp\<close> and \<^verbatim>\<open>files\<close>,
  each file an object with the keys \<^verbatim>\<open>path\<close>, \<^verbatim>\<open>size\<close>, \<^verbatim>\<open>mtime\<close> and \<^verbatim>\<open>exists\<close>, as
  \<^verbatim>\<open>save_index\<close> writes it. \<open>Malformed\<close> stands for every content on which \<^verbatim>\<open>json.load\<close> or
  the loader's reads of those keys raise. The files of the index directory are a store
  from paths to contents, passed through the operations that write it.
\<close>

record index_entry =
  entry_path :: pystr
  entry_size :: int
  entry_mtime :: rat
  entry_exists :: bool

record index_doc =
  doc_root_dir :: pystr
  doc_timestamp :: rat
  doc_files :: "index_entry list"

datatype index_file = Absent | Malformed | Document index_doc

type_synonym file_store = "pystr \<Rightarrow> index_file"

text \<open>
  \<^verbatim>\<open>save_index\<close>: entries whose path no longer exists are left out, the others are written
  with the modification time read again from the file system. Nothing is written when no
  entry is left (the early \<^verbatim>\<open>return\<close> after the warning), or when writing fails (the
  handler logs it). The temporary file is renamed over the index file, so the store
  changes at the index path only.
\<close>

definition fresh_entry :: "os_env \<Rightarrow> index_entry \<Rightarrow> index_entry option" where
  "fresh_entry env file =
     (case stat env (entry_path file) of
        Some stats \<Rightarrow>
          Some \<lparr>entry_path = entry_path file, entry_size = entry_size file,
                entry_mtime = st_mtime stats, entry_exists = True\<rparr>
      | None \<Rightarrow> None)"

definition save_index :: "os_env \<Rightarrow> file_store \<Rightarrow> pystr \<Rightarrow> index_entry list \<Rightarrow> file_store" where
  "save_index env store root_dir files =
     (let valid_files = List.map_filter (fresh_entry env) files
      in if valid_files = [] then store
         else if can_write env
         then store(index_path env root_dir :=
                Document \<lparr>doc_root_dir = root_dir, doc_timestamp = clock env, doc_files = valid_files\<rparr>)
         else store)"

text \<open>
  The validation loop of \<^verbatim>\<open>load_index\<close>: an entry is valid when its path exists, the live
  size equals the stored one and the live modification time differs from the stored one
  by less than a second. The result is the pair of \<^verbatim>\<open>valid_files\<close> (entries) and
  \<^verbatim>\<open>invalid_files\<close> (paths), each in the order of the file.
\<close>

definition entry_valid :: "os_env \<Rightarrow> index_entry \<Rightarrow> bool" where
  "entry_valid env file =
     (case stat env (entry_path file) of
        Some stats \<Rightarrow>
          st_size stats = entry_size file \<and> \<bar>st_mtime stats - entry_mtime file\<bar> < 1
      | None \<Rightarrow> False)"

fun validate :: "os_env \<Rightarrow> index_entry list \<Rightarrow> index_entry list \<times> pystr list" where
  "validate env [] = ([], [])"
| "validate env (file # rest) =
     (case validate env rest of
        (valid_files, invalid_files) \<Rightarrow>
          if entry_valid env file then (file # valid_files, invalid_files)
          else (valid_files, entry_path file # invalid_files))"

text \<open>
  \<^verbatim>\<open>load_index\<close> returns \<^verbatim>\<open>None\<close> for a missing file, for a malformed one (the outer
  handler; the file is not touched), for one older than 24 hours and for one with no valid
  entry. When some entry is invalid it calls \<^verbatim>\<open>save_index\<close> with the valid ones.
\<close>

definition load_index ::
  "os_env \<Rightarrow> file_store \<Rightarrow> pystr \<Rightarrow> (index_entry list \<times> rat) option \<times> file_store" where
  "load_index env store root_dir =
     (case store (index_path env root_dir) of
        Absent \<Rightarrow> (None, store)
      | Malformed \<Rightarrow> (None, store)
      | Document data \<Rightarrow>
          if (clock env - doc_timestamp data) / 3600 > 24 then (None, store)
          else
            (case validate env (doc_files data) of
               (valid_files, invalid_files) \<Rightarrow>
                 (let store' = (if invalid_files \<noteq> []
                                then save_index env store root_dir valid_files else store)
                  in if valid_files = [] then (None, store')
                     else (Some (valid_files, doc_timestamp data), store'))))"

definition remove_index :: "os_env \<Rightarrow> file_store \<Rightarrow> pystr \<Rightarrow> file_store" where
  "remove_index env store root_dir = store(index_path env root_dir := Absent)"

section \<open>core/music\_finder.py: the scan\<close>

definition MUSIC_EXTENSIONS :: "pystr list" where
  "MUSIC_EXTENSIONS =
     [ascii ''.mp3'', ascii ''.wav'', ascii ''.flac'', ascii ''.aac'', ascii ''.ogg'',
      ascii ''.m4a'', ascii ''.ape'', ascii ''.wma'']"

text \<open>
  The state of the scan: the list \<^verbatim>\<open>all_files\<close>, the set \<^verbatim>\<open>known_files\<close> and the counter
  \<^verbatim>\<open>new_files_count\<close>.
\<close>

record scan_state =
  all_files :: "file_info list"
  known_files :: "pystr set"
  new_files_count :: nat

text \<open>
  \<^verbatim>\<open>get_dir_mtime\<close>: the modification time of a directory, 0 when it cannot be read. Its
  memo table returns what the lookup returns, since the snapshot does not change.
\<close>

definition get_dir_mtime :: "os_env \<Rightarrow> pystr \<Rightarrow> rat" where
  "get_dir_mtime env dir_path =
     (case stat env dir_path of Some stats \<Rightarrow> st_mtime stats | None \<Rightarrow> 0)"

text \<open>
  One round of the loop over \<^verbatim>\<open>indexed_files\<close>. \<^verbatim>\<open>os.path.relpath\<close> raises on an empty
  directory name, which the loop's handler turns into skipping the entry. An entry whose
  directory is newer than the entry's stored time is skipped (\<^verbatim>\<open>continue\<close>): it enters
  neither \<^verbatim>\<open>all_files\<close> nor \<^verbatim>\<open>known_files\<close>.
\<close>

definition use_indexed_file :: "os_env \<Rightarrow> index_entry \<Rightarrow> scan_state \<Rightarrow> scan_state" where
  "use_indexed_file env f st =
     (let dir_path = dirname (entry_path f)
      in if dir_path = [] then st
         else if get_dir_mtime env dir_path > entry_mtime f then st
         else
           (let file_info = from_path env (entry_path f)
            in if exists file_info
               then st\<lparr>all_files := all_files st @ [file_info],
                       known_files := insert (entry_path f) (known_files st)\<rparr>
               else st))"

text \<open>
  \<^verbatim>\<open>should_scan_dir\<close>. The index time is \<open>None\<close> when no index was loaded (the flag
  \<^verbatim>\<open>has_index\<close> is false).
\<close>

definition should_scan_dir :: "os_env \<Rightarrow> pystr \<Rightarrow> rat option \<Rightarrow> pystr \<Rightarrow> bool" where
  "should_scan_dir env root_dir index_time dir_path =
     (case index_time of
        None \<Rightarrow> True
      | Some t \<Rightarrow>
          if get_dir_mtime env dir_path > t then True
          else
            (let parent = dirname dir_path
             in if parent \<noteq> [] \<and> startswith parent root_dir
                then get_dir_mtime env parent > t
                else False))"

text \<open>
  The body of the loop over the files of one directory: a known path is skipped, then the
  extension and the size are tested, then the record is built and counted.
\<close>

definition visit_file :: "os_env \<Rightarrow> rat \<Rightarrow> pystr \<Rightarrow> pystr \<Rightarrow> scan_state \<Rightarrow> scan_state" where
  "visit_file env min_size_bytes dirpath file st =
     (let file_path = join dirpath file
      in if file_path \<in> known_files st then st
         else if str_lower (snd (splitext file_path)) \<notin> set MUSIC_EXTENSIONS then st
         else
           (case stat env file_path of
              None \<Rightarrow> st
            | Some stats \<Rightarrow>
                if of_int (st_size stats) < min_size_bytes then st
                else
                  (let file_info = from_path env file_path
                   in if exists file_info
                      then st\<lparr>all_files := all_files st @ [file_info],
                              new_files_count := new_files_count st + 1\<rparr>
                      else st)))"

text \<open>
  The loop over \<^verbatim>\<open>os.walk(root_dir)\<close>, top down. A directory that cannot be listed yields
  nothing (\<^verbatim>\<open>os.walk\<close> ignores the error). \<open>depth\<close> is the number of parts of the
  directory's path relative to the root, 0 at the root itself (where the relative path is
  \<^verbatim>\<open>"."\<close>). Clearing \<^verbatim>\<open>dirs\<close> and continuing leaves the whole subtree out.
\<close>

fun walk ::
  "os_env \<Rightarrow> pystr \<Rightarrow> rat option \<Rightarrow> int \<Rightarrow> rat \<Rightarrow> pystr \<Rightarrow> nat \<Rightarrow> dtree \<Rightarrow> scan_state
     \<Rightarrow> scan_state" where
  "walk env root_dir index_time max_depth min_size_bytes dirpath depth Unreadable st = st"
| "walk env root_dir index_time max_depth min_size_bytes dirpath depth (Listing files dirs) st =
     (if \<not> should_scan_dir env root_dir index_time dirpath then st
      else if max_depth > 0 \<and> depth \<noteq> 0 \<and> int depth > max_depth then st
      else
        fold (\<lambda>d s. walk env root_dir index_time max_depth min_size_bytes
                       (join dirpath (fst d)) (Suc depth) (snd d) s)
             dirs
             (fold (visit_file env min_size_bytes dirpath) files st))"

text \<open>
  The first half of \<^verbatim>\<open>find_duplicates\<close>: load the index, take over its entries, walk the
  tree. The result is the final scan state, the loaded index and the store after loading.
\<close>

definition scan ::
  "os_env \<Rightarrow> file_store \<Rightarrow> pystr \<Rightarrow> int \<Rightarrow> rat
     \<Rightarrow> scan_state \<times> (index_entry list \<times> rat) option \<times> file_store" where
  "scan env store root_dir max_depth min_size_mb =
     (case load_index env store root_dir of
        (index_result, store') \<Rightarrow>
          (let st0 = \<lparr>all_files = [], known_files = {}, new_files_count = 0\<rparr>;
               st1 = (case index_result of
                        Some (indexed_files, index_time) \<Rightarrow>
                          fold (use_indexed_file env) indexed_files st0
                      | None \<Rightarrow> st0);
               min_size_bytes = min_size_mb * 1024 * 1024
           in (walk env root_dir (map_option snd index_result) max_depth min_size_bytes
                 root_dir 0 (scandir_tree env root_dir) st1,
               index_result, store')))"

text \<open>
  The index is written again when a new file was found or the number of files differs
  from the number of loaded entries.
\<close>

definition index_data_of :: "os_env \<Rightarrow> file_info \<Rightarrow> index_entry option" where
  "index_data_of env file_info =
     (case stat env (path file_info) of
        Some stats \<Rightarrow>
          Some \<lparr>entry_path = path file_info, entry_size = size_bytes file_info,
                entry_mtime = st_mtime stats, entry_exists = True\<rparr>
      | None \<Rightarrow> None)"

definition update_index ::
  "os_env \<Rightarrow> file_store \<Rightarrow> pystr \<Rightarrow> scan_state \<Rightarrow> (index_entry list \<times> rat) option
     \<Rightarrow> file_store" where
  "update_index env store root_dir st index_result =
     (if new_files_count st > 0 \<or>
         (case index_result of
            Some (indexed_files, index_time) \<Rightarrow> length (all_files st) \<noteq> length indexed_files
          | None \<Rightarrow> False)
      then
        (let index_data = List.map_filter (index_data_of env) (all_files st)
         in if index_data \<noteq> [] then save_index env store root_dir index_data else store)
      else store)"

text \<open>
  \<^verbatim>\<open>find_duplicates\<close>, from the normalized root on: the groups, the number of files scanned,
  and the store of index files afterwards. The function has no \<^verbatim>\<open>raise\<close>, and every call
  into the operating system sits under a handler or ignores errors, so returning the pair
  is its only outcome.
\<close>

definition find_duplicates ::
  "os_env \<Rightarrow> file_store \<Rightarrow> pystr \<Rightarrow> DuplicateCheckMethod \<Rightarrow> int \<Rightarrow> rat
     \<Rightarrow> (groups \<times> nat) \<times> file_store" where
  "find_duplicates env store root_dir method max_depth min_size_mb =
     (case scan env store root_dir max_depth min_size_mb of
        (st, index_result, store') \<Rightarrow>
          ((classify env method (all_files st), length (all_files st)),
           update_index env store' root_dir st index_result))"

section \<open>gui/widgets/file\_tree.py: choosing what to delete\<close>

text \<open>
  A row of a group in the tree, after \<^verbatim>\<open>auto_select_duplicates\<close> has parsed its columns:
  the path, the size in MB (\<^verbatim>\<open>float\<close> of the size column) and the time in seconds
  (\<^verbatim>\<open>time.mktime\<close> of the parsed time column). \<open>row_item\<close> identifies the tree item.
  The settings are those of the dialog.
\<close>

record file_row =
  row_item :: nat
  row_path :: pystr
  row_size :: rat
  row_mtime :: rat

record settings =
  format_priority :: "pystr \<Rightarrow> int option"
  prefer_larger :: bool
  exclude_dirs :: "pystr list"
  delete_dirs :: "pystr list"
  keep_oldest :: bool
  skip_different_names :: bool

text \<open>
  \<^verbatim>\<open>format_priority.get(ext, 999)\<close> with the lowered extension of the path, and the flag
  \<^verbatim>\<open>in_delete_dir\<close> that \<^verbatim>\<open>_select_files_to_delete\<close> stores before sorting.
\<close>

definition priority :: "settings \<Rightarrow> file_row \<Rightarrow> int" where
  "priority s f =
     (case format_priority s (str_lower (snd (splitext (row_path f)))) of
        Some p \<Rightarrow> p
      | None \<Rightarrow> 999)"

definition in_delete_dir :: "settings \<Rightarrow> file_row \<Rightarrow> bool" where
  "in_delete_dir s f =
     list_ex (\<lambda>d. contains (str_lower (row_path f)) (str_lower d)) (delete_dirs s)"

text \<open>
  The sort key of the source, a tuple compared lexicographically:
  \<^verbatim>\<open>(x['in_delete_dir'], x['priority'],
    x['size'] if settings['prefer_larger'] else -x['size'],
    -time.mktime(x['mtime']) if settings['keep_oldest'] else time.mktime(x['mtime']))\<close>.
\<close>

definition sort_key_of :: "settings \<Rightarrow> file_row \<Rightarrow> bool \<times> int \<times> rat \<times> rat" where
  "sort_key_of s x =
     (in_delete_dir s x, priority s x,
      (if prefer_larger s then row_size x else - row_size x),
      (if keep_oldest s then - row_mtime x else row_mtime x))"

text \<open>
  \<^verbatim>\<open>_select_files_to_delete\<close>: sort (Python's sort is stable, as \<open>sort_key\<close> is) and select
  every row but the first. The result is the list of selected rows.
\<close>

definition select_files_to_delete :: "file_row list \<Rightarrow> settings \<Rightarrow> file_row list" where
  "select_files_to_delete files s =
     (if files = [] then [] else tl (sort_key (sort_key_of s) files))"

definition excluded :: "settings \<Rightarrow> file_row \<Rightarrow> bool" where
  "excluded s f = list_ex (\<lambda>excl_dir. contains (row_path f) excl_dir) (exclude_dirs s)"

definition base_name_groups :: "file_row list \<Rightarrow> (pystr \<times> file_row list) list" where
  "base_name_groups files =
     fold (\<lambda>f d. dict_append (fst (splitext (basename (row_path f)))) f d) files []"

text \<open>The body of \<^verbatim>\<open>auto_select_duplicates\<close> for one group of the tree.\<close>

definition auto_select_group :: "settings \<Rightarrow> file_row list \<Rightarrow> file_row list" where
  "auto_select_group s rows =
     (let files = filter (\<lambda>f. \<not> excluded s f) rows
      in if files = [] then []
         else if skip_different_names s
         then concat (map (\<lambda>(name, group_files).
                             if length group_files > 1
                             then select_files_to_delete group_files s else [])
                          (base_name_groups files))
         else select_files_to_delete files s)"

section \<open>Example worlds\<close>

text \<open>
  Concrete snapshots on which the theorems below are instantiated: a root \<^verbatim>\<open>/music\<close>, an
  index path derived from the root, and an environment built from a table of \<^verbatim>\<open>stat\<close>
  results, the listing below the root, the clock and the outcome of reading each file.
\<close>

definition root0 :: pystr where
  "root0 = ascii ''/music''"

definition example_index_path :: "pystr \<Rightarrow> pystr" where
  "example_index_path r = ascii ''/home/u/.music_finder/index'' @ r @ ascii ''.json''"

definition example_env ::
  "(pystr \<times> stat_result) list \<Rightarrow> dtree \<Rightarrow> rat \<Rightarrow> (pystr \<Rightarrow> nat \<Rightarrow> read_result) \<Rightarrow> os_env" where
  "example_env stats tree now reads =
     \<lparr>stat = map_of stats,
      scandir_tree = (\<lambda>p. if p = root0 then tree else Unreadable),
      clock = now,
      strftime_local = (\<lambda>t. ascii ''2024-01-01 00:00:00''),
      read_attempt = reads,
      index_path = example_index_path,
      can_write = True\<rparr>"

definition no_index :: file_store where
  "no_index = (\<lambda>p. Absent)"

text \<open>
  Four files in the root: two of 1048576 bytes and two of 1048577 bytes, all printed as
  \<^verbatim>\<open>1.00 MB\<close>; the hashes of the two pairs differ after a common prefix of eight digits.
\<close>

definition hash1 :: pystr where
  "hash1 = ascii ''0123456789abcdef0123456789abcdef''"

definition hash2 :: pystr where
  "hash2 = ascii ''01234567ffffffffffffffffffffffff''"

definition env_labels :: os_env where
  "env_labels =
     example_env
       [(ascii ''/music'', \<lparr>st_size = 4096, st_mtime = 900\<rparr>),
        (ascii ''/music/a.mp3'', \<lparr>st_size = 1048576, st_mtime = 100\<rparr>),
        (ascii ''/music/b.mp3'', \<lparr>st_size = 1048576, st_mtime = 200\<rparr>),
        (ascii ''/music/c.mp3'', \<lparr>st_size = 1048577, st_mtime = 300\<rparr>),
        (ascii ''/music/d.mp3'', \<lparr>st_size = 1048577, st_mtime = 400\<rparr>)]
       (Listing [ascii ''a.mp3'', ascii ''b.mp3'', ascii ''c.mp3'', ascii ''d.mp3''] [])
       1000
       (\<lambda>p k. if p = ascii ''/music/a.mp3'' \<or> p = ascii ''/music/b.mp3''
               then Digest hash1 else Digest hash2)"

definition labelled_file :: "pystr \<Rightarrow> int \<Rightarrow> pystr option \<Rightarrow> file_info" where
  "labelled_file p n h =
     \<lparr>path = p, size_text = ascii ''1.00 MB'', mtime = ascii ''2024-01-01 00:00:00'',
      exists = True, md5_memo = h, size_bytes = n\<rparr>"

text \<open>
  The same four files where the hashes of the two pairs differ from the first digit on.
\<close>

definition hash3 :: pystr where
  "hash3 = ascii ''fedcba9876543210fedcba9876543210''"

definition env_sizes :: os_env where
  "env_sizes =
     example_env
       [(ascii ''/music'', \<lparr>st_size = 4096, st_mtime = 900\<rparr>),
        (ascii ''/music/a.mp3'', \<lparr>st_size = 1048576, st_mtime = 100\<rparr>),
        (ascii ''/music/b.mp3'', \<lparr>st_size = 1048576, st_mtime = 200\<rparr>),
        (ascii ''/music/c.mp3'', \<lparr>st_size = 1048577, st_mtime = 300\<rparr>),
        (ascii ''/music/d.mp3'', \<lparr>st_size = 1048577, st_mtime = 400\<rparr>)]
       (Listing [ascii ''a.mp3'', ascii ''b.mp3'', ascii ''c.mp3'', ascii ''d.mp3''] [])
       1000
       (\<lambda>p k. if p = ascii ''/music/a.mp3'' \<or> p = ascii ''/music/b.mp3''
               then Digest hash1 else Digest hash3)"

text \<open>
  The same four files, all of one size, where every attempt to read the first two fails
  with an \<^verbatim>\<open>IOError\<close> and the last two have the same content.
\<close>

definition env_unreadable_files :: os_env where
  "env_unreadable_files =
     example_env
       [(ascii ''/music'', \<lparr>st_size = 4096, st_mtime = 900\<rparr>),
        (ascii ''/music/a.mp3'', \<lparr>st_size = 1048576, st_mtime = 100\<rparr>),
        (ascii ''/music/b.mp3'', \<lparr>st_size = 1048576, st_mtime = 200\<rparr>),
        (ascii ''/music/c.mp3'', \<lparr>st_size = 1048576, st_mtime = 300\<rparr>),
        (ascii ''/music/d.mp3'', \<lparr>st_size = 1048576, st_mtime = 400\<rparr>)]
       (Listing [ascii ''a.mp3'', ascii ''b.mp3'', ascii ''c.mp3'', ascii ''d.mp3''] [])
       1000
       (\<lambda>p k. if p = ascii ''/music/a.mp3'' \<or> p = ascii ''/music/b.mp3''
               then IOError else Digest hash1)"

text \<open>
  The settings the dialog starts with: rank 1 for each of its seven formats, "keep the
  larger file" chosen, no directories, both check boxes clear. Two rows of one group that
  differ in size only.
\<close>

definition dialog_defaults :: settings where
  "dialog_defaults =
     \<lparr>format_priority =
        map_of [(ascii ''.flac'', 1), (ascii ''.wav'', 1), (ascii ''.ape'', 1), (ascii ''.mp3'', 1),
                (ascii ''.m4a'', 1), (ascii ''.ogg'', 1), (ascii ''.wma'', 1)],
      prefer_larger = True, exclude_dirs = [], delete_dirs = [], keep_oldest = False,
      skip_different_names = False\<rparr>"

definition small_row :: file_row where
  "small_row = \<lparr>row_item = 0, row_path = ascii ''/music/a.mp3'', row_size = 1, row_mtime = 1000\<rparr>"

definition large_row :: file_row where
  "large_row = \<lparr>row_item = 1, row_path = ascii ''/music/b.mp3'', row_size = 2, row_mtime = 1000\<rparr>"

text \<open>
  An index of three entries written at time 4000 and loaded at time 5000: the first file
  is unchanged, the second was touched half a second after its entry was written, the
  third is gone. The same world with an index of the vanished file only, and with an
  index file that does not parse.
\<close>

definition env_index :: os_env where
  "env_index =
     example_env
       [(ascii ''/music'', \<lparr>st_size = 4096, st_mtime = 900\<rparr>),
        (ascii ''/music/a.mp3'', \<lparr>st_size = 100, st_mtime = 1000\<rparr>),
        (ascii ''/music/b.mp3'', \<lparr>st_size = 200, st_mtime = 2001 / 2\<rparr>)]
       (Listing [ascii ''a.mp3'', ascii ''b.mp3''] [])
       5000
       (\<lambda>p k. Digest hash1)"

definition entry_a :: index_entry where
  "entry_a = \<lparr>entry_path = ascii ''/music/a.mp3'', entry_size = 100, entry_mtime = 1000,
              entry_exists = True\<rparr>"

definition entry_b :: index_entry where
  "entry_b = \<lparr>entry_path = ascii ''/music/b.mp3'', entry_size = 200, entry_mtime = 1000,
              entry_exists = True\<rparr>"

definition entry_c :: index_entry where
  "entry_c = \<lparr>entry_path = ascii ''/music/c.mp3'', entry_size = 300, entry_mtime = 1000,
              entry_exists = True\<rparr>"

definition doc_three :: index_doc where
  "doc_three = \<lparr>doc_root_dir = root0, doc_timestamp = 4000,
                doc_files = [entry_a, entry_b, entry_c]\<rparr>"

definition doc_gone :: index_doc where
  "doc_gone = \<lparr>doc_root_dir = root0, doc_timestamp = 4000, doc_files = [entry_c]\<rparr>"

definition store_three :: file_store where
  "store_three = no_index(example_index_path root0 := Document doc_three)"

definition store_gone :: file_store where
  "store_gone = no_index(example_index_path root0 := Document doc_gone)"

definition store_malformed :: file_store where
  "store_malformed = no_index(example_index_path root0 := Malformed)"

text \<open>The records \<^verbatim>\<open>FileInfo.from_path\<close> builds for the four files in the two worlds above.\<close>

definition four_paths :: "pystr list" where
  "four_paths =
     [ascii ''/music/a.mp3'', ascii ''/music/b.mp3'', ascii ''/music/c.mp3'',
      ascii ''/music/d.mp3'']"

definition files_labels :: "file_info list" where
  "files_labels = map (from_path env_labels) four_paths"

definition files_sizes :: "file_info list" where
  "files_sizes = map (from_path env_sizes) four_paths"

definition files_unreadable :: "file_info list" where
  "files_unreadable = map (from_path env_unreadable_files) four_paths"

text \<open>Two rows of one group that differ in age only.\<close>

definition old_row :: file_row where
  "old_row = \<lparr>row_item = 0, row_path = ascii ''/music/a.mp3'', row_size = 1, row_mtime = 1000\<rparr>"

definition new_row :: file_row where
  "new_row = \<lparr>row_item = 1, row_path = ascii ''/music/b.mp3'', row_size = 1, row_mtime = 2000\<rparr>"







section \<open>Properties\<close>

subsection \<open>File names (C8)\<close>

lemma parse_plain:
  "parse_music_filename (ascii ''Song - Artist.mp3'') = (ascii ''Song'', ascii ''artist'')"
  by code_simp

lemma parse_live:
  "parse_music_filename (ascii ''Song - Artist (Live).mp3'') = (ascii ''Song'', ascii ''artist'')"
  by code_simp

lemma basename_plain: "basename (ascii ''Song - Artist.mp3'') = ascii ''Song - Artist.mp3''"
  by code_simp

lemma basename_live:
  "basename (ascii ''Song - Artist (Live).mp3'') = ascii ''Song - Artist (Live).mp3''"
  by code_simp

lemma song_label_two:
  "song_label (ascii ''Song|artist'') (Suc (Suc 0)) =
   [27468, 26354, 58, 32] @ ascii ''Song (2'' @ [20010, 29256, 26412, 41]"
  by code_simp

lemma artist_nonempty: "ascii ''artist'' \<noteq> []"
  by (simp add: ascii_def)

lemma song_key: "ascii ''Song'' @ 124 # ascii ''artist'' = ascii ''Song|artist''"
  by (simp add: ascii_def)

text \<open>
  C8, as stated, fails: the title of \<^verbatim>\<open>"Song - Artist.mp3"\<close> is not normalized to
  \<^verbatim>\<open>"song"\<close>. \<^verbatim>\<open>parse_music_filename\<close> lowers the artist only; the title keeps its case.
\<close>

theorem filename_title_keeps_case:
  "parse_music_filename (ascii ''Song - Artist.mp3'') \<noteq> (ascii ''song'', ascii ''artist'')"
  unfolding parse_plain by (simp add: ascii_def)

text \<open>
  C8, amended: \<^verbatim>\<open>"Song - Artist.mp3"\<close> and \<^verbatim>\<open>"Song - Artist (Live).mp3"\<close> both parse to the
  title \<^verbatim>\<open>"Song"\<close> (case kept) and the artist \<^verbatim>\<open>"artist"\<close>, and the FILENAME method puts two
  records with these paths, whatever their other fields, into one group, labelled with the
  title and the count 2.
\<close>

theorem filename_live_grouped:
  "parse_music_filename (ascii ''Song - Artist.mp3'') = (ascii ''Song'', ascii ''artist'') \<and>
   parse_music_filename (ascii ''Song - Artist (Live).mp3'') = (ascii ''Song'', ascii ''artist'') \<and>
   classify env FILENAME
     [a\<lparr>path := ascii ''Song - Artist.mp3''\<rparr>, b\<lparr>path := ascii ''Song - Artist (Live).mp3''\<rparr>] =
   [([27468, 26354, 58, 32] @ ascii ''Song (2'' @ [20010, 29256, 26412, 41],
     [a\<lparr>path := ascii ''Song - Artist.mp3''\<rparr>, b\<lparr>path := ascii ''Song - Artist (Live).mp3''\<rparr>])]"
proof -
  have ka: "name_key (a\<lparr>path := ascii ''Song - Artist.mp3''\<rparr>) = ascii ''Song|artist''"
    by (simp add: name_key_def basename_plain parse_plain artist_nonempty song_key)
  have kb: "name_key (b\<lparr>path := ascii ''Song - Artist (Live).mp3''\<rparr>) = ascii ''Song|artist''"
    by (simp add: name_key_def basename_live parse_live artist_nonempty song_key)
  have "group_by_filename
     [a\<lparr>path := ascii ''Song - Artist.mp3''\<rparr>, b\<lparr>path := ascii ''Song - Artist (Live).mp3''\<rparr>] =
   [(song_label (ascii ''Song|artist'') (Suc (Suc 0)),
     [a\<lparr>path := ascii ''Song - Artist.mp3''\<rparr>, b\<lparr>path := ascii ''Song - Artist (Live).mp3''\<rparr>])]"
    by (simp add: group_by_filename_def name_groups_def ka kb)
  then show ?thesis
    by (simp add: parse_plain parse_live song_label_two)
qed

subsection \<open>Loading the index (C3, C4)\<close>

lemma validate_fst: "fst (validate env fs) = filter (entry_valid env) fs"
  by (induction fs) (auto split: prod.splits)

lemma validate_snd:
  "snd (validate env fs) = map entry_path (filter (\<lambda>e. \<not> entry_valid env e) fs)"
  by (induction fs) (auto split: prod.splits)

lemma validate_eq:
  "validate env fs =
     (filter (entry_valid env) fs, map entry_path (filter (\<lambda>e. \<not> entry_valid env e) fs))"
  by (metis prod.collapse validate_fst validate_snd)

lemma fresh_entry_valid:
  "entry_valid env e \<Longrightarrow>
   fresh_entry env e =
     Some \<lparr>entry_path = entry_path e, entry_size = entry_size e,
           entry_mtime = st_mtime (the (stat env (entry_path e))), entry_exists = True\<rparr>"
  by (auto simp: entry_valid_def fresh_entry_def split: option.splits)

lemma map_filter_fresh:
  "list_all (entry_valid env) es \<Longrightarrow>
   List.map_filter (fresh_entry env) es =
     map (\<lambda>e. \<lparr>entry_path = entry_path e, entry_size = entry_size e,
               entry_mtime = st_mtime (the (stat env (entry_path e))), entry_exists = True\<rparr>) es"
  by (induction es) (simp_all add: List.map_filter_simps fresh_entry_valid)
lemma index_path_example: "index_path env_index root0 = example_index_path root0"
  by (simp add: env_index_def example_env_def)
lemma valid_three: "filter (entry_valid env_index) (doc_files doc_three) = [entry_a, entry_b]"
  by code_simp

lemma live_mtimes:
  "st_mtime (the (stat env_index (ascii ''/music/a.mp3''))) = 1000"
  "st_mtime (the (stat env_index (ascii ''/music/b.mp3''))) = 2001 / 2"
  by code_simp+

text \<open>
  C3, as stated, fails: a malformed index file is not renamed aside. \<^verbatim>\<open>load_index\<close> catches
  the parse error, logs it and returns \<^verbatim>\<open>None\<close>; the file store after the call is the file
  store before it, with the malformed file still at the index path. (Only
  \<^verbatim>\<open>config/settings.py\<close> renames a corrupt file, and that is the settings file.)
\<close>

theorem malformed_index_not_renamed:
  "fst (load_index env_index store_malformed root0) = None \<and>
   snd (load_index env_index store_malformed root0) (index_path env_index root0) = Malformed \<and>
   snd (load_index env_index store_malformed root0) = store_malformed"
  by (simp add: load_index_def store_malformed_def index_path_example)

text \<open>
  C3, amended: when the file at the index path is malformed, \<^verbatim>\<open>load_index\<close> returns
  \<^verbatim>\<open>None\<close> and leaves every file as it was, and the scan is the walk of the whole tree from
  an empty list of known files, with no index time to prune directories by.
\<close>

theorem load_malformed_left_in_place:
  "store (index_path env root_dir) = Malformed \<Longrightarrow>
   load_index env store root_dir = (None, store) \<and>
   scan env store root_dir max_depth min_size_mb =
     (walk env root_dir None max_depth (min_size_mb * 1024 * 1024) root_dir 0
        (scandir_tree env root_dir) \<lparr>all_files = [], known_files = {}, new_files_count = 0\<rparr>,
      None, store)"
  by (simp add: load_index_def scan_def)

theorem load_malformed_left_in_place_witness:
  "load_index env_index store_malformed root0 = (None, store_malformed)"
proof -
  have "store_malformed (index_path env_index root0) = Malformed"
    by (simp add: store_malformed_def index_path_example)
  then show ?thesis
    using load_malformed_left_in_place [of store_malformed env_index root0 0 0] by simp
qed

text \<open>
  C4, as stated, fails: dropping a record does not always issue a compaction save. When every
  record of a fresh index is dropped, \<^verbatim>\<open>save_index\<close> finds no file to write and returns
  before opening the index: the stale index stays on disk as it was, and
  \<^verbatim>\<open>load_index\<close> returns \<^verbatim>\<open>None\<close>.
\<close>

theorem stale_index_not_compacted:
  "fst (load_index env_index store_gone root0) = None \<and>
   filter (entry_valid env_index) (doc_files doc_gone) = [] \<and>
   snd (load_index env_index store_gone root0) (example_index_path root0) =
     Document \<lparr>doc_root_dir = root0, doc_timestamp = 4000, doc_files = [entry_c]\<rparr>"
proof -
  have nv: "\<not> entry_valid env_index entry_c"
    by code_simp
  have m: "List.map_filter (fresh_entry env_index) [] = []"
    by (simp add: List.map_filter_simps)
  have d: "doc_files doc_gone = [entry_c]" "doc_timestamp doc_gone = 4000" "doc_root_dir doc_gone = root0"
    by (simp_all add: doc_gone_def)
  have c: "clock env_index = 5000"
    by (simp add: env_index_def example_env_def)
  have s: "store_gone (example_index_path root0) = Document doc_gone"
    by (simp add: store_gone_def)
  have l: "load_index env_index store_gone root0 = (None, store_gone)"
    by (simp add: load_index_def index_path_example s d c nv save_index_def m)
  show ?thesis
    by (simp add: l s d nv)
qed

text \<open>
  C4, amended: for a parseable index no older than 24 hours, \<^verbatim>\<open>load_index\<close> keeps exactly
  the records whose file exists with the stored size and a modification time less than one
  second from the stored one, and returns them with the stored timestamp (or \<^verbatim>\<open>None\<close> when
  none is left). The index is rewritten only when a record was dropped, at least one is left
  and the index can be written; the new content is the kept records, each with the
  modification time re-read from the file, under the current time.
\<close>

theorem load_revalidates:
  assumes "store (index_path env root_dir) = Document data"
    and "(clock env - doc_timestamp data) / 3600 \<le> 24"
  shows "(let valid = filter (entry_valid env) (doc_files data) in
          fst (load_index env store root_dir) =
            (if valid = [] then None else Some (valid, doc_timestamp data)) \<and>
          snd (load_index env store root_dir) =
            (if valid \<noteq> doc_files data \<and> valid \<noteq> [] \<and> can_write env
             then store(index_path env root_dir :=
                    Document \<lparr>doc_root_dir = root_dir, doc_timestamp = clock env,
                      doc_files =
                        map (\<lambda>e. \<lparr>entry_path = entry_path e, entry_size = entry_size e,
                                  entry_mtime = st_mtime (the (stat env (entry_path e))),
                                  entry_exists = True\<rparr>) valid\<rparr>)
             else store))"
proof -
  let ?valid = "filter (entry_valid env) (doc_files data)"
  have inv: "(filter (\<lambda>e. \<not> entry_valid env e) (doc_files data) \<noteq> []) = (?valid \<noteq> doc_files data)"
    by (metis filter_True filter_empty_conv filter_id_conv)
  have all: "list_all (entry_valid env) ?valid"
    by (simp add: list_all_iff)
  show ?thesis
    using assms inv
    by (auto simp: load_index_def validate_eq save_index_def map_filter_fresh [OF all] Let_def)
qed

theorem load_revalidates_witness:
  "fst (load_index env_index store_three root0) = Some ([entry_a, entry_b], 4000) \<and>
   snd (load_index env_index store_three root0) (example_index_path root0) =
     Document \<lparr>doc_root_dir = root0, doc_timestamp = 5000,
               doc_files = [entry_a, entry_b\<lparr>entry_mtime := 2001 / 2\<rparr>]\<rparr>"
proof -
  have h1: "store_three (index_path env_index root0) = Document doc_three"
    by (simp add: store_three_def index_path_example)
  have h2: "(clock env_index - doc_timestamp doc_three) / 3600 \<le> 24"
    by (simp add: env_index_def example_env_def doc_three_def)
  have h3: "[entry_a, entry_b] \<noteq> doc_files doc_three"
    by (simp add: doc_three_def)
  have h4: "can_write env_index" "clock env_index = 5000" "doc_timestamp doc_three = 4000"
    by (simp_all add: env_index_def example_env_def doc_three_def)
  show ?thesis
    using load_revalidates [of store_three env_index root0 doc_three, OF h1 h2] h3 h4
    by (simp add: Let_def valid_three live_mtimes index_path_example entry_a_def entry_b_def)
qed

subsection \<open>Grouping by content hash (C5, C6)\<close>

lemma dict_append_cases:
  "(k', vs) \<in> set (dict_append k v d) \<Longrightarrow>
   (k', vs) \<in> set d \<or> k' = k \<and> vs = [v] \<or> (\<exists>vs0. (k, vs0) \<in> set d \<and> k' = k \<and> vs = vs0 @ [v])"
  by (induction d) (auto split: if_splits)

lemma dict_set_cases:
  "(k', v') \<in> set (dict_set k v d) \<Longrightarrow> (k', v') \<in> set d \<or> k' = k \<and> v' = v"
  by (induction d) (auto split: if_splits)

lemma dict_append_members:
  assumes "\<forall>(k', vs) \<in> set d. \<forall>x \<in> set vs. P k' x" and "P k v"
  shows "\<forall>(k', vs) \<in> set (dict_append k v d). \<forall>x \<in> set vs. P k' x"
proof (clarify)
  fix k' vs x
  assume in_d: "(k', vs) \<in> set (dict_append k v d)" and x: "x \<in> set vs"
  from dict_append_cases [OF in_d] consider
    "(k', vs) \<in> set d" | "k' = k" "vs = [v]"
    | vs0 where "(k, vs0) \<in> set d" "k' = k" "vs = vs0 @ [v]"
    by blast
  then show "P k' x"
  proof cases
    case 1
    then show ?thesis using assms(1) x by blast
  next
    case 2
    then show ?thesis using assms(2) x by simp
  next
    case 3
    then show ?thesis using assms x by fastforce
  qed
qed

lemma group_fold_members:
  assumes "\<forall>(k', vs) \<in> set d. \<forall>x \<in> set vs. P k' x"
    and "\<forall>x \<in> set xs. Q x \<longrightarrow> P (key x) (val x)"
  shows "\<forall>(k', vs) \<in> set (fold (\<lambda>x d. if Q x then dict_append (key x) (val x) d else d) xs d).
           \<forall>x \<in> set vs. P k' x"
  using assms
proof (induction xs arbitrary: d)
  case Nil
  then show ?case by simp
next
  case (Cons a xs)
  have "\<forall>(k', vs) \<in> set (if Q a then dict_append (key a) (val a) d else d). \<forall>x \<in> set vs. P k' x"
    using Cons.prems dict_append_members [of d P "key a" "val a"] by auto
  then show ?case
    using Cons.IH [of "if Q a then dict_append (key a) (val a) d else d"] Cons.prems(2) by simp
qed

lemma md5_groups_members:
  "(h, cls) \<in> set (md5_groups env fs) \<Longrightarrow> x \<in> set cls \<Longrightarrow>
   md5_memo x = Some h \<and> h \<noteq> [] \<and> (\<exists>f \<in> set fs. x = md5_access env f)"
proof -
  have eq: "md5_groups env fs =
    fold (\<lambda>fi d. if truthy (md5_memo (md5_access env fi))
                  then dict_append (the (md5_memo (md5_access env fi))) (md5_access env fi) d else d)
         fs []"
    by (simp add: md5_groups_def Let_def)
  have "\<forall>(k', vs) \<in> set (md5_groups env fs). \<forall>x \<in> set vs.
          md5_memo x = Some k' \<and> k' \<noteq> [] \<and> (\<exists>f \<in> set fs. x = md5_access env f)"
    unfolding eq
    by (rule group_fold_members) (auto elim: truthy.elims)
  then show "(h, cls) \<in> set (md5_groups env fs) \<Longrightarrow> x \<in> set cls \<Longrightarrow> ?thesis" by auto
qed

lemma fold_dict_set_values:
  assumes "\<forall>(l, v) \<in> set d. P v" and "\<forall>x \<in> set xs. Q x \<longrightarrow> P (val x)"
  shows "\<forall>(l, v) \<in> set (fold (\<lambda>x d. if Q x then dict_set (lab x) (val x) d else d) xs d). P v"
  using assms
proof (induction xs arbitrary: d)
  case Nil
  then show ?case by simp
next
  case (Cons a xs)
  have "\<forall>(l, v) \<in> set (if Q a then dict_set (lab a) (val a) d else d). P v"
    using Cons.prems by (auto dest!: dict_set_cases)
  then show ?case
    using Cons.IH [of "if Q a then dict_set (lab a) (val a) d else d"] Cons.prems(2) by simp
qed

lemma calculate_md5_loop_opens:
  "snd (calculate_md5_loop rd m r k) \<le> k + (m - r)"
proof (induction rd m r k rule: calculate_md5_loop.induct)
  case (1 rd max_retries retries opens)
  show ?case
  proof (cases "retries < max_retries")
    case True
    then show ?thesis
      using "1.IH" by (subst calculate_md5_loop.simps) (auto split: read_result.splits)
  next
    case False
    then show ?thesis by (subst calculate_md5_loop.simps) simp
  qed
qed

lemma calculate_md5_io:
  assumes "\<forall>k<3. read_attempt env p k = IOError"
  shows "calculate_md5 env p = (Some [], 3)"
proof -
  have r0: "read_attempt env p 0 = IOError"
    and r1: "read_attempt env p (Suc 0) = IOError"
    and r2: "read_attempt env p (Suc (Suc 0)) = IOError"
    using assms by auto
  have "calculate_md5_loop (read_attempt env p) 3 (Suc (Suc 0)) (Suc (Suc 0)) =
          (Some [], Suc (Suc (Suc 0)))"
    by (subst calculate_md5_loop.simps) (simp add: r2)
  then have "calculate_md5_loop (read_attempt env p) 3 (Suc 0) (Suc 0) =
          (Some [], Suc (Suc (Suc 0)))"
    by (subst calculate_md5_loop.simps) (simp add: r1)
  then have "calculate_md5_loop (read_attempt env p) 3 0 0 = (Some [], Suc (Suc (Suc 0)))"
    by (subst calculate_md5_loop.simps) (simp add: r0)
  then show ?thesis by (simp add: calculate_md5_def numeral_3_eq_3)
qed

lemma group_by_md5_eq:
  "group_by_md5 env fs =
     fold (\<lambda>x d. if length (snd x) > 1 then dict_set (md5_label (fst x)) (snd x) d else d)
          (md5_groups env fs) []"
  by (simp add: group_by_md5_def split_def)

lemma fold_preserves:
  assumes "V d" and "\<And>x d. x \<in> set xs \<Longrightarrow> V d \<Longrightarrow> V (f x d)"
  shows "V (fold f xs d)"
  using assms by (induction xs arbitrary: d) auto

lemma md5_access_size [simp]: "size_bytes (md5_access env f) = size_bytes f"
  by (simp add: md5_access_def)

lemma unreadable_groups:
  "classify env_unreadable_files MD5 files_unreadable =
     [(ascii ''MD5: 01234567...'',
       [labelled_file (ascii ''/music/c.mp3'') 1048576 (Some hash1),
        labelled_file (ascii ''/music/d.mp3'') 1048576 (Some hash1)])]"
  by code_simp

text \<open>
  C5: computing a hash opens the file at most 3 times; when every attempt fails with an
  \<^verbatim>\<open>IOError\<close> the result is the empty string, after exactly 3 attempts. Every record of every
  group of the MD5 method is an input record with a hash that is not the empty string: a
  record whose hash is unknown is in no group.
\<close>

theorem unknown_hash_excluded:
  "snd (calculate_md5 env p) \<le> 3 \<and>
   ((\<forall>k<3. read_attempt env p k = IOError) \<longrightarrow> calculate_md5 env p = (Some [], 3)) \<and>
   (\<forall>(label, grp) \<in> set (classify env MD5 fs). \<forall>g \<in> set grp.
      (\<exists>d. md5_memo g = Some d \<and> d \<noteq> []) \<and> (\<exists>f \<in> set fs. g = md5_access env f))"
proof -
  have a: "snd (calculate_md5 env p) \<le> 3"
    using calculate_md5_loop_opens [of "read_attempt env p" 3 0 0] by (simp add: calculate_md5_def)
  have "\<forall>(l, v) \<in> set (group_by_md5 env fs). \<forall>g \<in> set v.
          (\<exists>d. md5_memo g = Some d \<and> d \<noteq> []) \<and> (\<exists>f \<in> set fs. g = md5_access env f)"
    unfolding group_by_md5_eq
    by (rule fold_dict_set_values) (auto dest: md5_groups_members)
  then show ?thesis
    using a calculate_md5_io by auto
qed

theorem unknown_hash_excluded_witness:
  "calculate_md5 env_unreadable_files (ascii ''/music/a.mp3'') = (Some [], 3) \<and>
   classify env_unreadable_files MD5 files_unreadable =
     [(ascii ''MD5: 01234567...'',
       [labelled_file (ascii ''/music/c.mp3'') 1048576 (Some hash1),
        labelled_file (ascii ''/music/d.mp3'') 1048576 (Some hash1)])] \<and>
   (\<exists>d. md5_memo (labelled_file (ascii ''/music/c.mp3'') 1048576 (Some hash1)) = Some d \<and> d \<noteq> [])"
proof -
  have io: "\<forall>k<3. read_attempt env_unreadable_files (ascii ''/music/a.mp3'') k = IOError"
    by (simp add: env_unreadable_files_def example_env_def)
  note inst = unknown_hash_excluded [of env_unreadable_files "ascii ''/music/a.mp3''" files_unreadable]
  from inst io have "calculate_md5 env_unreadable_files (ascii ''/music/a.mp3'') = (Some [], 3)"
    by blast
  moreover from inst have
    "\<exists>d. md5_memo (labelled_file (ascii ''/music/c.mp3'') 1048576 (Some hash1)) = Some d \<and> d \<noteq> []"
    unfolding unreadable_groups by simp
  ultimately show ?thesis
    using unreadable_groups by simp
qed

lemma dict_append_keys: "fst ` set (dict_append k v d) = insert k (fst ` set d)"
proof (induction d)
  case Nil
  show ?case by simp
next
  case (Cons a d)
  obtain k' vs where a: "a = (k', vs)" by (cases a)
  show ?case
  proof (cases "k' = k")
    case True
    then show ?thesis by (simp add: a insert_absorb2)
  next
    case False
    then show ?thesis using Cons by (simp add: a insert_commute)
  qed
qed

lemma dict_append_distinct:
  "distinct (map fst d) \<Longrightarrow> distinct (map fst (dict_append k v d))"
proof (induction d)
  case Nil
  then show ?case by simp
next
  case (Cons a d)
  obtain k' vs where a: "a = (k', vs)" by (cases a)
  have "set (map fst (dict_append k v d)) = insert k (fst ` set d)"
    using dict_append_keys [of k v d] by simp
  then show ?case
    using Cons by (auto simp: a)
qed

lemma dict_append_entry:
  assumes "distinct (map fst d)" and "(k', vs) \<in> set (dict_append k v d)"
  shows "(k' \<noteq> k \<and> (k', vs) \<in> set d) \<or>
         (k' = k \<and> (\<exists>vs0. (k, vs0) \<in> set d \<and> vs = vs0 @ [v])) \<or>
         (k' = k \<and> k \<notin> fst ` set d \<and> vs = [v])"
  using assms
proof (induction d)
  case Nil
  then show ?case by simp
next
  case (Cons a d)
  obtain k0 vs0 where a: "a = (k0, vs0)" by (cases a)
  show ?case
  proof (cases "k0 = k")
    case True
    then show ?thesis
      using Cons.prems by (auto simp: a rev_image_eqI)
  next
    case False
    then show ?thesis
      using Cons by (auto simp: a)
  qed
qed

lemma group_fold_classes:
  "distinct (map fst (fold (\<lambda>x d. if Q x then dict_append (key x) (val x) d else d) xs [])) \<and>
   fst ` set (fold (\<lambda>x d. if Q x then dict_append (key x) (val x) d else d) xs []) =
     key ` {x \<in> set xs. Q x} \<and>
   (\<forall>(k, vs) \<in> set (fold (\<lambda>x d. if Q x then dict_append (key x) (val x) d else d) xs []).
      vs = map val (filter (\<lambda>x. Q x \<and> key x = k) xs))"
proof (induction xs rule: rev_induct)
  case Nil
  show ?case by simp
next
  case (snoc x xs)
  let ?d = "fold (\<lambda>x d. if Q x then dict_append (key x) (val x) d else d) xs []"
  have d: "distinct (map fst ?d)"
    and keys: "fst ` set ?d = key ` {x \<in> set xs. Q x}"
    and cls: "\<And>k vs. (k, vs) \<in> set ?d \<Longrightarrow> vs = map val (filter (\<lambda>x. Q x \<and> key x = k) xs)"
    using snoc by auto
  show ?case
  proof (cases "Q x")
    case False
    have "{y \<in> set (xs @ [x]). Q y} = {y \<in> set xs. Q y}"
      using False by auto
    then show ?thesis
      using False d keys cls by auto
  next
    case True
    have s: "fold (\<lambda>x d. if Q x then dict_append (key x) (val x) d else d) (xs @ [x]) [] =
             dict_append (key x) (val x) ?d"
      using True by simp
    have k: "{y \<in> set (xs @ [x]). Q y} = insert x {y \<in> set xs. Q y}"
      using True by auto
    have e: "vs = map val (filter (\<lambda>y. Q y \<and> key y = k') (xs @ [x]))"
      if "(k', vs) \<in> set (dict_append (key x) (val x) ?d)" for k' vs
    proof -
      from dict_append_entry [OF d that] consider
        "k' \<noteq> key x" "(k', vs) \<in> set ?d"
        | vs0 where "k' = key x" "(key x, vs0) \<in> set ?d" "vs = vs0 @ [val x]"
        | "k' = key x" "key x \<notin> fst ` set ?d" "vs = [val x]"
        by blast
      then show ?thesis
      proof cases
        case 1
        then show ?thesis using cls [of k' vs] by auto
      next
        case 2
        then show ?thesis using cls [of "key x" vs0] True by auto
      next
        case 3
        have "\<not> (Q y \<and> key y = key x)" if "y \<in> set xs" for y
        proof
          assume "Q y \<and> key y = key x"
          then have "key x \<in> key ` {x \<in> set xs. Q x}"
            using that by (metis (mono_tags, lifting) imageI mem_Collect_eq)
          then show False
            using 3(2) unfolding keys by simp
        qed
        then have "filter (\<lambda>y. Q y \<and> key y = key x) xs = []"
          by (simp add: filter_empty_conv)
        then show ?thesis using 3 True by simp
      qed
    qed
    show ?thesis
      unfolding s k
      using dict_append_distinct [OF d] dict_append_keys [of "key x" "val x" ?d] keys e
      by auto
  qed
qed

lemma size_groups_classes:
  "(sz, cls) \<in> set (size_groups fs) \<Longrightarrow> cls = filter (\<lambda>f. size_bytes f = sz) fs"
  using group_fold_classes [of "\<lambda>x. True" size_bytes "\<lambda>x. x" fs]
  by (auto simp: size_groups_def)

lemma md5_groups_classes:
  assumes "(h, grp) \<in> set (md5_groups env fs)" and "grp \<noteq> []"
  shows "h \<noteq> [] \<and>
         grp = map (md5_access env) (filter (\<lambda>f. md5_memo (md5_access env f) = Some h) fs)"
proof -
  have eq: "md5_groups env fs =
    fold (\<lambda>fi d. if truthy (md5_memo (md5_access env fi))
                  then dict_append (the (md5_memo (md5_access env fi))) (md5_access env fi) d else d)
         fs []"
    by (simp add: md5_groups_def Let_def)
  have g: "grp = map (md5_access env)
             (filter (\<lambda>f. truthy (md5_memo (md5_access env f)) \<and>
                          the (md5_memo (md5_access env f)) = h) fs)"
    using group_fold_classes [of "\<lambda>f. truthy (md5_memo (md5_access env f))"
            "\<lambda>f. the (md5_memo (md5_access env f))" "md5_access env" fs] assms(1)
    unfolding eq by auto
  obtain x where "x \<in> set grp"
    using assms(2) by (cases grp) auto
  then have h: "h \<noteq> []"
    using md5_groups_members [OF assms(1)] by blast
  have "(truthy m \<and> the m = h) = (m = Some h)" for m
    using h by (cases m) auto
  then show ?thesis
    using g h by simp
qed

lemma dict_set_entry:
  assumes "\<forall>(l, v) \<in> set d. P l v" and "P k v'"
  shows "\<forall>(l, v) \<in> set (dict_set k v' d). P l v"
  using assms by (auto dest!: dict_set_cases)

lemma sizes_mixed:
  "classify env_sizes MIXED files_sizes =
     [([22823, 23567, 58, 32] @ ascii ''1.00 MB, MD5: 01234567...'',
       [labelled_file (ascii ''/music/a.mp3'') 1048576 (Some hash1),
        labelled_file (ascii ''/music/b.mp3'') 1048576 (Some hash1)]),
      ([22823, 23567, 58, 32] @ ascii ''1.00 MB, MD5: fedcba98...'',
       [labelled_file (ascii ''/music/c.mp3'') 1048577 (Some hash3),
        labelled_file (ascii ''/music/d.mp3'') 1048577 (Some hash3)])]"
  by code_simp

lemma sizes_size:
  "classify env_sizes SIZE files_sizes =
     [([22823, 23567, 58, 32] @ ascii ''1.00 MB'',
       [labelled_file (ascii ''/music/c.mp3'') 1048577 None,
        labelled_file (ascii ''/music/d.mp3'') 1048577 None])]"
  by code_simp

lemma sizes_scan:
  "all_files (fst (scan env_sizes no_index root0 0 0)) = files_sizes"
  by code_simp

text \<open>
  C6, as stated, fails in its subset property: a group of the MIXED method need not lie in a
  group of the SIZE method. Four files as the scan finds them: two of 1048576 bytes with one
  content, two of 1048577 bytes with another. Both sizes print as \<^verbatim>\<open>1.00 MB\<close>, so the
  SIZE method stores both pairs under one label and returns the later pair only, while
  the MIXED method, whose labels carry the hash, returns both pairs: the first pair is a
  MIXED group and no SIZE group holds its files.
\<close>

theorem mixed_group_in_no_size_group:
  "all_files (fst (scan env_sizes no_index root0 0 0)) = files_sizes \<and>
   map (\<lambda>(l, g). map path g) (classify env_sizes MIXED files_sizes) =
     [[ascii ''/music/a.mp3'', ascii ''/music/b.mp3''],
      [ascii ''/music/c.mp3'', ascii ''/music/d.mp3'']] \<and>
   map (\<lambda>(l, g). map path g) (classify env_sizes SIZE files_sizes) =
     [[ascii ''/music/c.mp3'', ascii ''/music/d.mp3'']] \<and>
   \<not> (\<exists>(l, g) \<in> set (classify env_sizes SIZE files_sizes).
        ascii ''/music/a.mp3'' \<in> set (map path g))"
  by code_simp

text \<open>
  C6, amended: every group of the MIXED method is exactly the input records of one size in
  bytes whose hash is one and the same non-empty string, in input order, more than one of
  them, labelled with the printed size of its first record and that hash. So any two records
  of a MIXED group have the same size in bytes and the same hash: a group lies within one
  class of the partition by exact size (which the SIZE method may not return as a group),
  and records of one size with different contents are never grouped.
\<close>

theorem mixed_group_one_size_one_hash:
  "\<forall>(label, grp) \<in> set (classify env MIXED fs).
     (\<exists>sz h. h \<noteq> [] \<and> length grp > 1 \<and>
        grp = map (md5_access env)
                (filter (\<lambda>f. size_bytes f = sz \<and> md5_memo (md5_access env f) = Some h) fs) \<and>
        label = mixed_label (hd grp) h) \<and>
     (\<forall>a \<in> set grp. \<forall>b \<in> set grp. size_bytes a = size_bytes b \<and> md5_memo a = md5_memo b)"
proof -
  define P where "P label grp \<longleftrightarrow>
    (\<exists>sz h. h \<noteq> [] \<and> length grp > 1 \<and>
        grp = map (md5_access env)
                (filter (\<lambda>f. size_bytes f = sz \<and> md5_memo (md5_access env f) = Some h) fs) \<and>
        label = mixed_label (hd grp) h)" for label grp
  define V where "V d \<longleftrightarrow> (\<forall>(l, v) \<in> set d. P l v)" for d :: groups
  have inner: "V (fold (\<lambda>(md5, md5_files) duplicates.
                       case md5_files of
                         f0 # f1 # rest \<Rightarrow> dict_set (mixed_label f0 md5) md5_files duplicates
                       | _ \<Rightarrow> duplicates)
                    (md5_groups env cls) d)"
    if cls: "(sz, cls) \<in> set (size_groups fs)" and d: "V d" for sz cls d
  proof (rule fold_preserves [where V = V])
    show "V d" by (rule d)
  next
    fix x d'
    assume x: "x \<in> set (md5_groups env cls)" and d': "V d'"
    obtain h grp where xh: "x = (h, grp)" by (cases x)
    have c: "cls = filter (\<lambda>f. size_bytes f = sz) fs"
      by (rule size_groups_classes [OF cls])
    have "P (mixed_label f0 h) grp" if g: "grp = f0 # f1 # rest" for f0 f1 rest
    proof -
      have ne: "grp \<noteq> []" using g by simp
      have hg: "h \<noteq> []"
        and gg: "grp = map (md5_access env) (filter (\<lambda>f. md5_memo (md5_access env f) = Some h) cls)"
        using md5_groups_classes [of h grp env cls] x xh ne by auto
      have "filter (\<lambda>f. md5_memo (md5_access env f) = Some h) cls =
            filter (\<lambda>f. size_bytes f = sz \<and> md5_memo (md5_access env f) = Some h) fs"
        unfolding c by (simp add: conj_commute)
      then have "grp = map (md5_access env)
                (filter (\<lambda>f. size_bytes f = sz \<and> md5_memo (md5_access env f) = Some h) fs)"
        using gg by simp
      moreover have "length grp > 1" "hd grp = f0"
        using g by simp_all
      ultimately show ?thesis
        unfolding P_def using hg by blast
    qed
    note pg = this
    show "V ((case x of (md5, md5_files) \<Rightarrow> \<lambda>duplicates.
                       case md5_files of
                         f0 # f1 # rest \<Rightarrow> dict_set (mixed_label f0 md5) md5_files duplicates
                       | _ \<Rightarrow> duplicates) d')"
    proof (cases grp)
      case Nil
      then show ?thesis using d' by (simp add: xh)
    next
      case (Cons f0 t)
      show ?thesis
      proof (cases t)
        case Nil
        then show ?thesis using d' Cons by (simp add: xh)
      next
        case (Cons f1 rest)
        have g: "grp = f0 # f1 # rest"
          using \<open>grp = f0 # t\<close> Cons by simp
        have "\<forall>(l, v) \<in> set (dict_set (mixed_label f0 h) grp d'). P l v"
          using dict_set_entry [of d' P "mixed_label f0 h" grp] d' pg [OF g]
          by (simp add: V_def)
        then have "V (dict_set (mixed_label f0 h) grp d')"
          by (simp add: V_def)
        then show ?thesis
          by (simp add: xh g)
      qed
    qed
  qed
  have "V (group_mixed env fs)"
    unfolding group_mixed_def
  proof (rule fold_preserves [where V = V])
    show "V []" by (simp add: V_def)
  next
    fix x d
    assume x: "x \<in> set (size_groups fs)" and d: "V d"
    obtain sz cls where xs: "x = (sz, cls)" by (cases x)
    show "V ((case x of (sz', files) \<Rightarrow> \<lambda>duplicates.
             if length files > 1 then
               fold (\<lambda>(md5, md5_files) duplicates.
                       case md5_files of
                         f0 # f1 # rest \<Rightarrow> dict_set (mixed_label f0 md5) md5_files duplicates
                       | _ \<Rightarrow> duplicates)
                    (md5_groups env files) duplicates
             else duplicates) d)"
      using inner [of sz cls d] x d by (simp add: xs)
  qed
  then have all: "\<forall>(l, v) \<in> set (classify env MIXED fs). P l v"
    by (simp add: V_def)
  show ?thesis
  proof (clarify)
    fix label grp
    assume "(label, grp) \<in> set (classify env MIXED fs)"
    with all have p: "P label grp" by blast
    then obtain sz h where
      g: "grp = map (md5_access env)
                (filter (\<lambda>f. size_bytes f = sz \<and> md5_memo (md5_access env f) = Some h) fs)"
      unfolding P_def by blast
    have eq: "size_bytes a = sz \<and> md5_memo a = Some h" if "a \<in> set grp" for a
      using that unfolding g by auto
    show "(\<exists>sz h. h \<noteq> [] \<and> length grp > 1 \<and>
        grp = map (md5_access env)
                (filter (\<lambda>f. size_bytes f = sz \<and> md5_memo (md5_access env f) = Some h) fs) \<and>
        label = mixed_label (hd grp) h) \<and>
     (\<forall>a \<in> set grp. \<forall>b \<in> set grp. size_bytes a = size_bytes b \<and> md5_memo a = md5_memo b)"
      using p eq unfolding P_def by simp
  qed
qed

theorem mixed_group_one_size_one_hash_witness:
  "classify env_sizes MIXED files_sizes =
     [([22823, 23567, 58, 32] @ ascii ''1.00 MB, MD5: 01234567...'',
       [labelled_file (ascii ''/music/a.mp3'') 1048576 (Some hash1),
        labelled_file (ascii ''/music/b.mp3'') 1048576 (Some hash1)]),
      ([22823, 23567, 58, 32] @ ascii ''1.00 MB, MD5: fedcba98...'',
       [labelled_file (ascii ''/music/c.mp3'') 1048577 (Some hash3),
        labelled_file (ascii ''/music/d.mp3'') 1048577 (Some hash3)])] \<and>
   (\<exists>sz h. h \<noteq> [] \<and>
      [labelled_file (ascii ''/music/a.mp3'') 1048576 (Some hash1),
       labelled_file (ascii ''/music/b.mp3'') 1048576 (Some hash1)] =
      map (md5_access env_sizes)
        (filter (\<lambda>f. size_bytes f = sz \<and> md5_memo (md5_access env_sizes f) = Some h)
           files_sizes)) \<and>
   size_bytes (labelled_file (ascii ''/music/a.mp3'') 1048576 (Some hash1)) =
   size_bytes (labelled_file (ascii ''/music/b.mp3'') 1048576 (Some hash1)) \<and>
   md5_memo (labelled_file (ascii ''/music/a.mp3'') 1048576 (Some hash1)) =
   md5_memo (labelled_file (ascii ''/music/b.mp3'') 1048576 (Some hash1))"
proof -
  let ?a = "labelled_file (ascii ''/music/a.mp3'') 1048576 (Some hash1)"
  let ?b = "labelled_file (ascii ''/music/b.mp3'') 1048576 (Some hash1)"
  let ?L = "[22823, 23567, 58, 32] @ ascii ''1.00 MB, MD5: 01234567...''"
  have mem: "(?L, [?a, ?b]) \<in> set (classify env_sizes MIXED files_sizes)"
    unfolding sizes_mixed by (rule list.set_intros(1))
  note inst = bspec [OF mixed_group_one_size_one_hash [of env_sizes files_sizes] mem]
  from inst have
    "\<exists>sz h. h \<noteq> [] \<and> length [?a, ?b] > 1 \<and>
       [?a, ?b] = map (md5_access env_sizes)
         (filter (\<lambda>f. size_bytes f = sz \<and> md5_memo (md5_access env_sizes f) = Some h)
            files_sizes) \<and>
       ?L = mixed_label (hd [?a, ?b]) h"
    unfolding prod.case by (rule conjunct1)
  then have e: "\<exists>sz h. h \<noteq> [] \<and>
       [?a, ?b] = map (md5_access env_sizes)
         (filter (\<lambda>f. size_bytes f = sz \<and> md5_memo (md5_access env_sizes f) = Some h)
            files_sizes)"
    by (elim exE conjE) (intro exI conjI, assumption+)
  from inst have
    "\<forall>x \<in> set [?a, ?b]. \<forall>y \<in> set [?a, ?b]. size_bytes x = size_bytes y \<and> md5_memo x = md5_memo y"
    unfolding prod.case by (rule conjunct2)
  then have "\<forall>y \<in> set [?a, ?b]. size_bytes ?a = size_bytes y \<and> md5_memo ?a = md5_memo y"
    by (rule bspec) (rule list.set_intros(1))
  then have s: "size_bytes ?a = size_bytes ?b \<and> md5_memo ?a = md5_memo ?b"
    by (rule bspec) (rule list.set_intros(2), rule list.set_intros(1))
  show ?thesis
  proof (intro conjI)
    show "classify env_sizes MIXED files_sizes =
      [(?L, [?a, ?b]),
       ([22823, 23567, 58, 32] @ ascii ''1.00 MB, MD5: fedcba98...'',
        [labelled_file (ascii ''/music/c.mp3'') 1048577 (Some hash3),
         labelled_file (ascii ''/music/d.mp3'') 1048577 (Some hash3)])]"
      by (rule sizes_mixed)
    show "\<exists>sz h. h \<noteq> [] \<and>
       [?a, ?b] = map (md5_access env_sizes)
         (filter (\<lambda>f. size_bytes f = sz \<and> md5_memo (md5_access env_sizes f) = Some h)
            files_sizes)"
      by (rule e)
    show "size_bytes ?a = size_bytes ?b"
      using s by (rule conjunct1)
    show "md5_memo ?a = md5_memo ?b"
      using s by (rule conjunct2)
  qed
qed

subsection \<open>Group labels (C9)\<close>

lemma labels_size_classes:
  "map (\<lambda>(sz, cls). (sz, map path cls)) (size_groups files_labels) =
     [(1048576, [ascii ''/music/a.mp3'', ascii ''/music/b.mp3'']),
      (1048577, [ascii ''/music/c.mp3'', ascii ''/music/d.mp3''])]"
  by code_simp

lemma labels_md5_classes:
  "map (\<lambda>(h, cls). (h, map path cls)) (md5_groups env_labels files_labels) =
     [(hash1, [ascii ''/music/a.mp3'', ascii ''/music/b.mp3'']),
      (hash2, [ascii ''/music/c.mp3'', ascii ''/music/d.mp3''])]"
  by code_simp

lemma labels_size:
  "fst (find_duplicates env_labels no_index root0 SIZE 0 0) =
     ([([22823, 23567, 58, 32] @ ascii ''1.00 MB'',
        [labelled_file (ascii ''/music/c.mp3'') 1048577 None,
         labelled_file (ascii ''/music/d.mp3'') 1048577 None])], 4)"
  by code_simp

lemma labels_md5:
  "fst (find_duplicates env_labels no_index root0 MD5 0 0) =
     ([(ascii ''MD5: 01234567...'',
        [labelled_file (ascii ''/music/c.mp3'') 1048577 (Some hash2),
         labelled_file (ascii ''/music/d.mp3'') 1048577 (Some hash2)])], 4)"
  by code_simp

lemma labels_mixed_scan:
  "fst (find_duplicates env_labels no_index root0 MIXED 0 0) =
     ([([22823, 23567, 58, 32] @ ascii ''1.00 MB, MD5: 01234567...'',
        [labelled_file (ascii ''/music/c.mp3'') 1048577 (Some hash2),
         labelled_file (ascii ''/music/d.mp3'') 1048577 (Some hash2)])], 4)"
  by code_simp

text \<open>
  C9: labels do not tell groups apart. Four files: two of 1048576 bytes with one content,
  two of 1048577 bytes with another, the two hashes sharing their first 8 digits. They form
  two classes by size and two classes by hash, but both sizes print as \<^verbatim>\<open>1.00 MB\<close> and both
  hashes as \<^verbatim>\<open>01234567...\<close>, so the SIZE, the MD5 and the MIXED method each return one group
  only, the later one, under the shared label: the first pair of duplicates is lost.
\<close>

theorem group_labels_collide:
  "map (\<lambda>(sz, cls). (sz, map path cls)) (size_groups files_labels) =
     [(1048576, [ascii ''/music/a.mp3'', ascii ''/music/b.mp3'']),
      (1048577, [ascii ''/music/c.mp3'', ascii ''/music/d.mp3''])] \<and>
   fst (find_duplicates env_labels no_index root0 SIZE 0 0) =
     ([([22823, 23567, 58, 32] @ ascii ''1.00 MB'',
        [labelled_file (ascii ''/music/c.mp3'') 1048577 None,
         labelled_file (ascii ''/music/d.mp3'') 1048577 None])], 4) \<and>
   map (\<lambda>(h, cls). (h, map path cls)) (md5_groups env_labels files_labels) =
     [(hash1, [ascii ''/music/a.mp3'', ascii ''/music/b.mp3'']),
      (hash2, [ascii ''/music/c.mp3'', ascii ''/music/d.mp3''])] \<and>
   fst (find_duplicates env_labels no_index root0 MD5 0 0) =
     ([(ascii ''MD5: 01234567...'',
        [labelled_file (ascii ''/music/c.mp3'') 1048577 (Some hash2),
         labelled_file (ascii ''/music/d.mp3'') 1048577 (Some hash2)])], 4) \<and>
   fst (find_duplicates env_labels no_index root0 MIXED 0 0) =
     ([([22823, 23567, 58, 32] @ ascii ''1.00 MB, MD5: 01234567...'',
        [labelled_file (ascii ''/music/c.mp3'') 1048577 (Some hash2),
         labelled_file (ascii ''/music/d.mp3'') 1048577 (Some hash2)])], 4)"
  using labels_size_classes labels_size labels_md5_classes labels_md5 labels_mixed_scan
  by (intro conjI)

subsection \<open>Choosing what to delete (C1)\<close>

text \<open>
  C1: with the settings the dialog starts from (\<^verbatim>\<open>prefer_larger\<close> set, labelled "keep the
  large file"), of two files that differ in size only the larger one is selected for
  deletion, in either order of the rows: the size key sorts ascending where the label and
  the specification need descending. With \<^verbatim>\<open>keep_oldest\<close> set ("keep the earliest file
  first"), of two files that differ in age only the older one is selected for deletion.
\<close>

theorem prefer_larger_deletes_larger:
  "auto_select_group dialog_defaults [small_row, large_row] = [large_row] \<and>
   auto_select_group dialog_defaults [large_row, small_row] = [large_row] \<and>
   auto_select_group (dialog_defaults\<lparr>keep_oldest := True\<rparr>) [old_row, new_row] = [old_row] \<and>
   auto_select_group (dialog_defaults\<lparr>keep_oldest := True\<rparr>) [new_row, old_row] = [old_row]"
  by code_simp

subsection \<open>The scan (C2, C7, C10)\<close>




























end
